theory Spec2Isabelle
  imports Main "HOL-Library.Sublist"
begin

section \<open>The driver configuration command of falcoctl (cmd/driver/config/config.go)\<close>

text \<open>
  The command logs its options, optionally commits the chosen driver type to the
  configuration that Falco reads (the local file /etc/falco/falco.yaml, or the config maps
  of a Kubernetes namespace), and then stores the driver in falcoctl's own configuration.

  A Go \<open>error\<close> is modelled by its message, a function returning \<open>error\<close> by an
  \<open>outcome\<close>: \<open>Success\<close> is \<open>nil\<close>, \<open>Failure e\<close> a returned error and \<open>Panic\<close> a
  run-time panic (an index out of range), which ends the process.
\<close>

type_synonym error = string

datatype outcome = Success | Failure error | Panic string

subsection \<open>Data\<close>

text \<open>A file of the local file system: its bytes and its permission bits.\<close>

record osfile =
  content :: string
  mode :: nat

text \<open>
  The fields of \<open>v1.ConfigMap\<close> and \<open>v1.ConfigMapList\<close> (k8s.io/api/core/v1) that the
  command reads. \<open>Data\<close> is a Go map from string to string.
\<close>

record ConfigMap =
  Name :: string
  Namespace :: string
  Data :: "string \<rightharpoonup> string"

record ConfigMapList =
  Items :: "ConfigMap list"

text \<open>The element type of the JSON patch (the struct declared inside the function).\<close>

record patchDriverTypeValue =
  Op :: string
  Path :: string
  Value :: string

text \<open>
  \<open>options.Driver\<close> and the options of the command. The Go struct embeds
  \<open>*options.Common\<close> (of which the command uses the logger and \<open>ConfigFile\<close>) and
  \<open>*options.Driver\<close>; the option \<open>Namespace\<close> is the field \<open>optNamespace\<close> here, the
  driver's \<open>Name\<close> is \<open>DriverName\<close>, since a record field is a constant of the theory.
\<close>

record 'dt Driver =
  Type :: 'dt
  DriverName :: string
  Version :: string
  HostRoot :: string
  Repos :: "string list"

record 'dt driverConfigOptions =
  ConfigFile :: string
  Driver :: "'dt Driver"
  Update :: bool
  optNamespace :: string
  KubeConfig :: string

text \<open>
  Modelled from the spec: \<open>config.Driver\<close>, the value that
  \<open>options.Driver.ToDriverConfig\<close> builds and \<open>config.StoreDriver\<close> writes (package
  internal/config and pkg/options are not among the sources). The spec lists what is
  persisted: the chosen driver type plus its metadata (name, version, host-root path,
  source list).
\<close>

record DriverConfig =
  cfgType :: string
  cfgName :: string
  cfgVersion :: string
  cfgHostRoot :: string
  cfgRepos :: "string list"

subsection \<open>The outside world\<close>

text \<open>
  Every interaction with the outside is recorded, in order, in a trace: log lines, reads
  and writes of files, requests to the Kubernetes API server, and the write of the
  driver store. A \<open>PatchCall\<close> carries the position in the listing of the resource
  it is made for, then the namespace, the name, the patch type and the body.
\<close>

datatype event =
    Info string "(string \<times> string) list"
  | Warn string "(string \<times> string) list"
  | ReadFile string
  | WriteFile string string nat
  | ListCall string string
  | PatchCall nat string string string string
  | StoreCall DriverConfig string

record world =
  files :: "string \<rightharpoonup> osfile"
  store :: "string \<rightharpoonup> DriverConfig"
  trace :: "event list"

text \<open>
  What the command calls and this file does not define: the package drivertype of the
  repository (\<open>Parse\<close>, and \<open>String\<close> of the interface \<open>DriverType\<close>, whose values are
  the type variable \<open>'dt\<close>), and the libraries yaml, os, client-go and encoding/json.
  They are parameters, so that every theorem holds whatever they answer.
  \<^item> \<open>yaml_Unmarshal\<close> is \<open>yaml.Unmarshal\<close> into \<open>falcoCfg\<close> followed by the read of
    \<open>cfg.Engine.Kind\<close>.
  \<^item> \<open>os_WriteFile\<close> is the error, if any, of writing the file at a path.
  \<^item> \<open>ConfigMaps_List\<close> takes the namespace and the label selector.
  \<^item> \<open>ConfigMapList_Size\<close> is the method \<open>Size()\<close> of \<open>*v1.ConfigMapList\<close>. The
    type has one method of that name, the one that k8s.io/api generates for the protobuf
    encoding: it answers the length in bytes of the encoded list (for a list that is
    not nil at least 2, and more than the number of its items), not the number of its
    items. The model assumes nothing of its value.
  \<^item> \<open>json_String\<close> is the JSON string literal that encoding/json writes for a Go
    string (the quotes, and the escapes of the characters that need one).
  \<^item> \<open>ConfigMaps_Patch\<close> takes the position in the listing of the resource that is
    patched (the answers to two requests may differ), then namespace, name, patch type
    and body.
\<close>

record 'dt deps =
  drivertype_Parse :: "string \<Rightarrow> error + 'dt"
  drivertype_String :: "'dt \<Rightarrow> string"
  yaml_Unmarshal :: "string \<Rightarrow> error + string"
  os_WriteFile :: "string \<Rightarrow> error option"
  clientcmd_BuildConfigFromFlags :: "string \<Rightarrow> error option"
  rest_InClusterConfig :: "error option"
  kubernetes_NewForConfig :: "error option"
  ConfigMaps_List :: "string \<Rightarrow> string \<Rightarrow> error + ConfigMapList"
  ConfigMapList_Size :: "ConfigMapList \<Rightarrow> nat"
  json_String :: "string \<Rightarrow> string"
  ConfigMaps_Patch :: "nat \<Rightarrow> string \<Rightarrow> string \<Rightarrow> string \<Rightarrow> string \<Rightarrow> error option"

definition emit :: "event \<Rightarrow> world \<Rightarrow> world" where
  "emit e w = w\<lparr>trace := trace w @ [e]\<rparr>"

definition os_ReadFile :: "string \<Rightarrow> world \<Rightarrow> (error + string) \<times> world" where
  "os_ReadFile path w =
     (case files w path of
        None \<Rightarrow> (Inl (''open '' @ path @ '': no such file or directory''), emit (ReadFile path) w)
      | Some f \<Rightarrow> (Inr (content f), emit (ReadFile path) w))"

subsection \<open>Constants\<close>

text \<open>\<open>strings.Join\<close>.\<close>

fun Join :: "string list \<Rightarrow> string \<Rightarrow> string" where
  "Join [] sep = []"
| "Join [x] sep = x"
| "Join (x # y # xs) sep = x @ sep @ Join (y # xs) sep"

definition configMapEngineKindKey :: string where
  "configMapEngineKindKey = ''engine.kind''"

definition configKindKey :: string where
  "configKindKey = ''kind: ''"

text \<open>\<open>filepath.Clean(filepath.Join("/", "etc", "falco", "falco.yaml"))\<close>.\<close>

definition falcoCfgFile :: string where
  "falcoCfgFile = ''/etc/falco/falco.yaml''"

definition labelSelector :: string where
  "labelSelector = ''app.kubernetes.io/instance: falco''"

text \<open>\<open>types.JSONPatchType\<close>.\<close>

definition JSONPatchType :: string where
  "JSONPatchType = ''application/json-patch+json''"

definition noConfigMaps :: error where
  "noConfigMaps = ''no configmaps matching \"app.kubernetes.io/instance: falco\" label were found''"

subsection \<open>checkFalcoRunsWithDrivers\<close>

definition checkFalcoRunsWithDrivers :: "'dt deps \<Rightarrow> string \<Rightarrow> error option" where
  "checkFalcoRunsWithDrivers d engineKind =
     (case drivertype_Parse d engineKind of
        Inl err \<Rightarrow> Some (''engine.kind is not driver driven: '' @ engineKind)
      | Inr t \<Rightarrow> None)"

subsection \<open>replaceDriverTypeInFalcoConfig\<close>

text \<open>
  Modelled from the spec: \<open>utils.ReplaceTextInFile\<close> (package internal/utils is not
  among the sources). The spec: an exact, first-occurrence-only literal substitution
  within the raw file content, leaving every other byte unchanged, then the full content
  is written back to the same path preserving file mode; a write failure is an error;
  if the text is not present, the substitution silently performs zero replacements.
  The last argument of the call is the number of occurrences to replace, from the left.
\<close>

fun strings_Replace :: "string \<Rightarrow> string \<Rightarrow> string \<Rightarrow> nat \<Rightarrow> string" where
  "strings_Replace s old new 0 = s"
| "strings_Replace [] old new (Suc n) = (if old = [] then new else [])"
| "strings_Replace (c # cs) old new (Suc n) =
     (if prefix old (c # cs)
      then new @ strings_Replace (drop (length old) (c # cs)) old new n
      else c # strings_Replace cs old new (Suc n))"

definition ReplaceTextInFile ::
  "'dt deps \<Rightarrow> string \<Rightarrow> string \<Rightarrow> string \<Rightarrow> nat \<Rightarrow> world \<Rightarrow> outcome \<times> world" where
  "ReplaceTextInFile d filePath searchFor newText n w =
     (case files w filePath of
        None \<Rightarrow> (Failure (''stat '' @ filePath @ '': no such file or directory''), w)
      | Some f \<Rightarrow>
          (let output = strings_Replace (content f) searchFor newText n;
               w1 = emit (WriteFile filePath output (mode f)) w
           in case os_WriteFile d filePath of
                Some err \<Rightarrow> (Failure err, w1)
              | None \<Rightarrow> (Success, w1\<lparr>files := (files w1)(filePath \<mapsto> f\<lparr>content := output\<rparr>)\<rparr>)))"

definition replaceDriverTypeInFalcoConfig :: "'dt deps \<Rightarrow> 'dt \<Rightarrow> world \<Rightarrow> outcome \<times> world" where
  "replaceDriverTypeInFalcoConfig d driverType w =
     (case os_ReadFile falcoCfgFile w of
        (Inl err, w1) \<Rightarrow> (Failure err, w1)
      | (Inr yamlFile, w1) \<Rightarrow>
          (case yaml_Unmarshal d yamlFile of
             Inl err \<Rightarrow> (Failure err, w1)
           | Inr kind \<Rightarrow>
               (case checkFalcoRunsWithDrivers d kind of
                  Some err \<Rightarrow>
                    (Success, emit (Warn ''Avoid updating Falco configuration''
                                      [(''config'', falcoCfgFile), (''reason'', err)]) w1)
                | None \<Rightarrow>
                    ReplaceTextInFile d falcoCfgFile (configKindKey @ kind)
                      (configKindKey @ drivertype_String d driverType) 1 w1)))"

subsection \<open>replaceDriverTypeInK8SConfigMap\<close>

text \<open>A Go map read: the zero value, the empty string, for a key that is absent.\<close>

definition engineKindOf :: "ConfigMap \<Rightarrow> string" where
  "engineKindOf configMap =
     (case Data configMap configMapEngineKindKey of None \<Rightarrow> [] | Some v \<Rightarrow> v)"

definition payload :: "'dt deps \<Rightarrow> 'dt \<Rightarrow> patchDriverTypeValue list" where
  "payload d driverType =
     [\<lparr>Op = ''replace'', Path = ''/data/'' @ configMapEngineKindKey,
       Value = drivertype_String d driverType\<rparr>]"

text \<open>
  \<open>json.Marshal(payload)\<close>: a slice is written as a JSON array, a struct as an object
  whose keys are the \<open>json\<close> tags of the fields, in the order of their declaration.
  Marshalling strings cannot fail; the source drops the error.
\<close>

definition json_Marshal :: "'dt deps \<Rightarrow> patchDriverTypeValue list \<Rightarrow> string" where
  "json_Marshal d ps =
     ''['' @ Join (map (\<lambda>p. ''{\"op\":'' @ json_String d (Op p) @
                             '',\"path\":'' @ json_String d (Path p) @
                             '',\"value\":'' @ json_String d (Value p) @ ''}'') ps) '','' @ '']''"

text \<open>
  The loop \<open>for i := 0; i < configMapList.Size(); i++\<close>, from the index \<open>i\<close> on. The
  bound is the value of \<open>Size()\<close>; reading \<open>configMapList.Items[i]\<close> beyond the end of
  the slice panics.
\<close>

function patchLoop ::
  "'dt deps \<Rightarrow> ConfigMapList \<Rightarrow> string \<Rightarrow> nat \<Rightarrow> world \<Rightarrow> outcome \<times> world" where
  "patchLoop d configMapList plBytes i w =
     (if i < ConfigMapList_Size d configMapList then
        (if i < length (Items configMapList) then
           (let configMap = Items configMapList ! i;
                currEngineKind = engineKindOf configMap
            in case checkFalcoRunsWithDrivers d currEngineKind of
                 Some err \<Rightarrow>
                   patchLoop d configMapList plBytes (i + 1)
                     (emit (Warn ''Avoid updating Falco configMap''
                              [(''configMap'', Name configMap), (''reason'', err)]) w)
               | None \<Rightarrow>
                   (let w1 = emit (PatchCall i (Namespace configMap) (Name configMap)
                                     JSONPatchType plBytes) w
                    in case ConfigMaps_Patch d i (Namespace configMap) (Name configMap)
                              JSONPatchType plBytes of
                         Some err \<Rightarrow> (Failure err, w1)
                       | None \<Rightarrow> patchLoop d configMapList plBytes (i + 1) w1))
         else (Panic ''index out of range'', w))
      else (Success, w))"
  by pat_completeness auto
termination
  by (relation "measure (\<lambda>(d, configMapList, plBytes, i, w). ConfigMapList_Size d configMapList - i)")
     auto

declare patchLoop.simps [simp del]

definition replaceDriverTypeInK8SConfigMap ::
  "'dt deps \<Rightarrow> 'dt driverConfigOptions \<Rightarrow> 'dt \<Rightarrow> world \<Rightarrow> outcome \<times> world" where
  "replaceDriverTypeInK8SConfigMap d opts driverType w =
     (case (if KubeConfig opts \<noteq> [] then clientcmd_BuildConfigFromFlags d (KubeConfig opts)
            else rest_InClusterConfig d) of
        Some err \<Rightarrow> (Failure err, w)
      | None \<Rightarrow>
          (case kubernetes_NewForConfig d of
             Some err \<Rightarrow> (Failure err, w)
           | None \<Rightarrow>
               (let w1 = emit (ListCall (optNamespace opts) labelSelector) w
                in case ConfigMaps_List d (optNamespace opts) labelSelector of
                     Inl err \<Rightarrow> (Failure err, w1)
                   | Inr configMapList \<Rightarrow>
                       if ConfigMapList_Size d configMapList = 0 then (Failure noConfigMaps, w1)
                       else patchLoop d configMapList (json_Marshal d (payload d driverType)) 0 w1)))"

subsection \<open>commit and RunDriverConfig\<close>

definition commit ::
  "'dt deps \<Rightarrow> 'dt driverConfigOptions \<Rightarrow> 'dt \<Rightarrow> world \<Rightarrow> outcome \<times> world" where
  "commit d opts driverType w =
     (if optNamespace opts \<noteq> [] then replaceDriverTypeInK8SConfigMap d opts driverType w
      else replaceDriverTypeInFalcoConfig d driverType w)"

text \<open>
  Modelled from the spec: \<open>options.Driver.ToDriverConfig\<close> and \<open>config.StoreDriver\<close>
  (pkg/options and internal/config are not among the sources). The spec: the chosen
  driver type plus its metadata (name, version, host-root path, source list) is written
  to a local structured store. The store is keyed by the path of the configuration file;
  the write fails when writing that file does.
\<close>

definition ToDriverConfig :: "'dt deps \<Rightarrow> 'dt Driver \<Rightarrow> DriverConfig" where
  "ToDriverConfig d drv =
     \<lparr>cfgType = drivertype_String d (Type drv), cfgName = DriverName drv,
      cfgVersion = Version drv, cfgHostRoot = HostRoot drv, cfgRepos = Repos drv\<rparr>"

definition StoreDriver :: "'dt deps \<Rightarrow> DriverConfig \<Rightarrow> string \<Rightarrow> world \<Rightarrow> outcome \<times> world" where
  "StoreDriver d driverCfg configFile w =
     (let w1 = emit (StoreCall driverCfg configFile) w
      in case os_WriteFile d configFile of
           Some err \<Rightarrow> (Failure err, w1)
         | None \<Rightarrow> (Success, w1\<lparr>store := (store w1)(configFile \<mapsto> driverCfg)\<rparr>))"

text \<open>The line that the command logs first.\<close>

definition runningInfo :: "'dt deps \<Rightarrow> 'dt driverConfigOptions \<Rightarrow> event" where
  "runningInfo d opts =
     Info ''Running falcoctl driver config''
       [(''name'', DriverName (Driver opts)),
        (''version'', Version (Driver opts)),
        (''type'', drivertype_String d (Type (Driver opts))),
        (''host-root'', HostRoot (Driver opts)),
        (''repos'', Join (Repos (Driver opts)) '','')]"

definition RunDriverConfig :: "'dt deps \<Rightarrow> 'dt driverConfigOptions \<Rightarrow> world \<Rightarrow> outcome \<times> world" where
  "RunDriverConfig d opts w =
     (let w1 = emit (runningInfo d opts) w
      in if Update opts then
           (case commit d opts (Type (Driver opts)) w1 of
              (Failure err, w2) \<Rightarrow> (Failure err, w2)
            | (Panic p, w2) \<Rightarrow> (Panic p, w2)
            | (Success, w2) \<Rightarrow> StoreDriver d (ToDriverConfig d (Driver opts)) (ConfigFile opts) w2)
         else StoreDriver d (ToDriverConfig d (Driver opts)) (ConfigFile opts) w1)"

subsection \<open>Notions used in the statements\<close>

text \<open>
  \<open>clientAcquired\<close>: the configuration and the client were built without error.
  \<open>patchIndex\<close>: the position in the listing that a patch request is made for.
  \<open>stepEvents\<close>: what one passage through the loop body adds to the trace, a warning
  for a resource that is skipped, a patch request otherwise.
  \<open>patchesOk d l pl i k\<close>: the API server accepts the patch of every resource from
  position \<open>i\<close> up to, and without, position \<open>k\<close> that the loop would patch.
\<close>

definition clientAcquired :: "'dt deps \<Rightarrow> 'dt driverConfigOptions \<Rightarrow> bool" where
  "clientAcquired d opts \<longleftrightarrow>
     (if KubeConfig opts \<noteq> [] then clientcmd_BuildConfigFromFlags d (KubeConfig opts)
      else rest_InClusterConfig d) = None \<and> kubernetes_NewForConfig d = None"

fun patchIndex :: "event \<Rightarrow> nat option" where
  "patchIndex (PatchCall i ns nm pt body) = Some i"
| "patchIndex ev = None"

definition stepEvents :: "'dt deps \<Rightarrow> ConfigMapList \<Rightarrow> string \<Rightarrow> nat \<Rightarrow> event list" where
  "stepEvents d l pl i =
     (case checkFalcoRunsWithDrivers d (engineKindOf (Items l ! i)) of
        Some err \<Rightarrow> [Warn ''Avoid updating Falco configMap''
                       [(''configMap'', Name (Items l ! i)), (''reason'', err)]]
      | None \<Rightarrow> [PatchCall i (Namespace (Items l ! i)) (Name (Items l ! i)) JSONPatchType pl])"

definition patchesOk :: "'dt deps \<Rightarrow> ConfigMapList \<Rightarrow> string \<Rightarrow> nat \<Rightarrow> nat \<Rightarrow> bool" where
  "patchesOk d l pl i k \<longleftrightarrow>
     list_all (\<lambda>j. checkFalcoRunsWithDrivers d (engineKindOf (Items l ! j)) = None \<longrightarrow>
                    ConfigMaps_Patch d j (Namespace (Items l ! j)) (Name (Items l ! j))
                      JSONPatchType pl = None) [i..<k]"

subsection \<open>A concrete environment\<close>

text \<open>
  Modelled from the spec: the package pkg/driver/type is not among the sources. The spec:
  DriverType is a closed enumeration {kernel-module, ebpf, modern-ebpf} with a canonical
  string form used both as the value written into configuration and as the validation
  token. The theorems below hold for every \<open>Parse\<close> and \<open>String\<close>; this instance is
  what they are evaluated at.
\<close>

datatype DriverType = KernelModule | Ebpf | ModernEbpf

fun DriverType_String :: "DriverType \<Rightarrow> string" where
  "DriverType_String KernelModule = ''kernel-module''"
| "DriverType_String Ebpf = ''ebpf''"
| "DriverType_String ModernEbpf = ''modern-ebpf''"

definition Parse :: "string \<Rightarrow> error + DriverType" where
  "Parse driverType =
     (if driverType = ''kernel-module'' then Inr KernelModule
      else if driverType = ''ebpf'' then Inr Ebpf
      else if driverType = ''modern-ebpf'' then Inr ModernEbpf
      else Inl (''wrong driver type specified: '' @ driverType))"

text \<open>
  An environment in which every library call succeeds, the listing is empty (and its
  encoding 2 bytes long) and the local file has no engine kind. The examples below
  override what they need.
  Its \<open>json_String\<close> is right for the strings that need no escape.
\<close>

definition deps0 :: "DriverType deps" where
  "deps0 =
     \<lparr>drivertype_Parse = Parse,
      drivertype_String = DriverType_String,
      yaml_Unmarshal = (\<lambda>yamlFile. Inr []),
      os_WriteFile = (\<lambda>path. None),
      clientcmd_BuildConfigFromFlags = (\<lambda>path. None),
      rest_InClusterConfig = None,
      kubernetes_NewForConfig = None,
      ConfigMaps_List = (\<lambda>ns selector. Inr \<lparr>Items = []\<rparr>),
      ConfigMapList_Size = (\<lambda>l. 2),
      json_String = (\<lambda>s. ''\"'' @ s @ ''\"''),
      ConfigMaps_Patch = (\<lambda>i ns name pt body. None)\<rparr>"

definition world0 :: world where
  "world0 = \<lparr>files = Map.empty, store = Map.empty, trace = []\<rparr>"

definition opts0 :: "DriverType driverConfigOptions" where
  "opts0 =
     \<lparr>ConfigFile = ''/etc/falcoctl/falcoctl.yaml'',
      Driver = \<lparr>Type = Ebpf, DriverName = ''falco'', Version = ''7.0.0'', HostRoot = ''/host'',
                Repos = [''https://download.falco.org/driver'']\<rparr>,
      Update = True, optNamespace = [], KubeConfig = []\<rparr>"

text \<open>
  Four config maps of the namespace falco: two that run with a driver, one that runs
  with gVisor, and one without the key engine.kind. \<open>depsK8s items n\<close> is a cluster
  whose listing answers \<open>items\<close> and in which \<open>Size()\<close> of the listing is \<open>n\<close>, a
  number of bytes. \<open>ebpfPatch\<close> is the body of the patch to the driver type ebpf, and
  \<open>depsPatchFails\<close> a cluster that rejects the patch of the third resource.
\<close>

definition configMapA :: ConfigMap where
  "configMapA = \<lparr>Name = ''falco-a'', Namespace = ''falco'', Data = [''engine.kind'' \<mapsto> ''ebpf'']\<rparr>"

definition configMapB :: ConfigMap where
  "configMapB = \<lparr>Name = ''falco-b'', Namespace = ''falco'', Data = [''engine.kind'' \<mapsto> ''gvisor'']\<rparr>"

definition configMapC :: ConfigMap where
  "configMapC = \<lparr>Name = ''falco-c'', Namespace = ''falco'', Data = [''engine.kind'' \<mapsto> ''kernel-module'']\<rparr>"

definition configMapD :: ConfigMap where
  "configMapD = \<lparr>Name = ''falco-d'', Namespace = ''falco'', Data = [''falco.yaml'' \<mapsto> ''rules: []'']\<rparr>"

definition depsK8s :: "ConfigMap list \<Rightarrow> nat \<Rightarrow> DriverType deps" where
  "depsK8s items n =
     deps0\<lparr>ConfigMaps_List := (\<lambda>ns selector. Inr \<lparr>Items = items\<rparr>),
           ConfigMapList_Size := (\<lambda>l. n)\<rparr>"

definition optsK8s :: "DriverType driverConfigOptions" where
  "optsK8s = opts0\<lparr>optNamespace := ''falco''\<rparr>"

definition ebpfPatch :: string where
  "ebpfPatch = ''[{\"op\":\"replace\",\"path\":\"/data/engine.kind\",\"value\":\"ebpf\"}]''"

definition depsPatchFails :: "DriverType deps" where
  "depsPatchFails =
     (depsK8s [configMapA, configMapB, configMapC] 200)
       \<lparr>ConfigMaps_Patch := (\<lambda>i ns name pt body. if i = 2 then Some ''forbidden'' else None)\<rparr>"

text \<open>
  The local file, with a given engine kind, its mode \<open>rw-r--r--\<close>; a yaml library that
  reads that file; and the value that is stored for the driver of \<open>opts0\<close>.
\<close>

definition falcoYaml :: "string \<Rightarrow> string" where
  "falcoYaml kind = ''engine:'' @ [CHR 0x0A] @ ''  kind: '' @ kind @ [CHR 0x0A]"

definition depsLocal :: "string \<Rightarrow> DriverType deps" where
  "depsLocal kind =
     deps0\<lparr>yaml_Unmarshal := (\<lambda>yamlFile. if yamlFile = falcoYaml kind then Inr kind
                                         else Inl ''yaml: unmarshal errors'')\<rparr>"

definition worldLocal :: "string \<Rightarrow> world" where
  "worldLocal kind =
     world0\<lparr>files := [falcoCfgFile \<mapsto> \<lparr>content = falcoYaml kind, mode = 420\<rparr>]\<rparr>"

definition driverCfg0 :: DriverConfig where
  "driverCfg0 =
     \<lparr>cfgType = ''ebpf'', cfgName = ''falco'', cfgVersion = ''7.0.0'', cfgHostRoot = ''/host'',
      cfgRepos = [''https://download.falco.org/driver'']\<rparr>"

section \<open>Theorems\<close>

subsection \<open>The trace and the loop\<close>

lemma emit_simps [simp]:
  "trace (emit e w) = trace w @ [e]"
  "files (emit e w) = files w"
  "store (emit e w) = store w"
  by (simp_all add: emit_def)

lemma emit_append:
  "(emit e w)\<lparr>trace := es\<rparr> = w\<lparr>trace := es\<rparr>"
  by (simp add: emit_def)

lemma patchLoop_step_skip:
  assumes "i < ConfigMapList_Size d l" "i < length (Items l)"
    and "checkFalcoRunsWithDrivers d (engineKindOf (Items l ! i)) = Some err"
  shows "patchLoop d l pl i w =
         patchLoop d l pl (Suc i)
           (emit (Warn ''Avoid updating Falco configMap''
                    [(''configMap'', Name (Items l ! i)), (''reason'', err)]) w)"
  using assms by (subst patchLoop.simps) (simp add: Let_def)

lemma patchLoop_step_patch_ok:
  assumes "i < ConfigMapList_Size d l" "i < length (Items l)"
    and "checkFalcoRunsWithDrivers d (engineKindOf (Items l ! i)) = None"
    and "ConfigMaps_Patch d i (Namespace (Items l ! i)) (Name (Items l ! i)) JSONPatchType pl = None"
  shows "patchLoop d l pl i w =
         patchLoop d l pl (Suc i)
           (emit (PatchCall i (Namespace (Items l ! i)) (Name (Items l ! i)) JSONPatchType pl) w)"
  using assms by (subst patchLoop.simps) (simp add: Let_def)

lemma patchLoop_step_patch_fail:
  assumes "i < ConfigMapList_Size d l" "i < length (Items l)"
    and "checkFalcoRunsWithDrivers d (engineKindOf (Items l ! i)) = None"
    and "ConfigMaps_Patch d i (Namespace (Items l ! i)) (Name (Items l ! i)) JSONPatchType pl = Some e"
  shows "patchLoop d l pl i w =
         (Failure e, emit (PatchCall i (Namespace (Items l ! i)) (Name (Items l ! i)) JSONPatchType pl) w)"
  using assms by (subst patchLoop.simps) (simp add: Let_def)

lemma patchLoop_step_panic:
  assumes "i < ConfigMapList_Size d l" "\<not> i < length (Items l)"
  shows "patchLoop d l pl i w = (Panic ''index out of range'', w)"
  using assms by (subst patchLoop.simps) simp

lemma patchLoop_step_done:
  assumes "\<not> i < ConfigMapList_Size d l"
  shows "patchLoop d l pl i w = (Success, w)"
  using assms by (subst patchLoop.simps) simp

lemma patchLoop_frame:
  "files (snd (patchLoop d l pl i w)) = files w \<and> store (snd (patchLoop d l pl i w)) = store w"
proof (induction "ConfigMapList_Size d l - i" arbitrary: i w)
  case 0
  then show ?case by (simp add: patchLoop_step_done)
next
  case (Suc n)
  then have lt: "i < ConfigMapList_Size d l" and n: "n = ConfigMapList_Size d l - Suc i"
    by simp_all
  show ?case
  proof (cases "i < length (Items l)")
    case False
    with lt show ?thesis by (simp add: patchLoop_step_panic)
  next
    case True
    show ?thesis
    proof (cases "checkFalcoRunsWithDrivers d (engineKindOf (Items l ! i))")
      case (Some err)
      with lt True Suc.hyps(1)[OF n] show ?thesis
        by (simp add: patchLoop_step_skip)
    next
      case None
      show ?thesis
      proof (cases "ConfigMaps_Patch d i (Namespace (Items l ! i)) (Name (Items l ! i)) JSONPatchType pl")
        case (Some e)
        with lt True None show ?thesis by (simp add: patchLoop_step_patch_fail)
      next
        case N2: None
        with lt True None Suc.hyps(1)[OF n] show ?thesis
          by (simp add: patchLoop_step_patch_ok)
      qed
    qed
  qed
qed

lemma patchLoop_patches:
  "PatchCall j ns nm pt body \<in> set (trace (snd (patchLoop d l pl i w))) \<Longrightarrow>
   PatchCall j ns nm pt body \<in> set (trace w) \<or>
   (i \<le> j \<and> j < length (Items l) \<and> j < ConfigMapList_Size d l \<and>
    checkFalcoRunsWithDrivers d (engineKindOf (Items l ! j)) = None \<and>
    ns = Namespace (Items l ! j) \<and> nm = Name (Items l ! j) \<and> pt = JSONPatchType \<and> body = pl)"
proof (induction "ConfigMapList_Size d l - i" arbitrary: i w)
  case 0
  then show ?case by (simp add: patchLoop_step_done)
next
  case (Suc n)
  then have lt: "i < ConfigMapList_Size d l" and n: "n = ConfigMapList_Size d l - Suc i"
    by simp_all
  show ?case
  proof (cases "i < length (Items l)")
    case False
    with lt Suc.prems show ?thesis by (simp add: patchLoop_step_panic)
  next
    case True
    show ?thesis
    proof (cases "checkFalcoRunsWithDrivers d (engineKindOf (Items l ! i))")
      case (Some err)
      with lt True Suc.prems Suc.hyps(1)[OF n] show ?thesis
        by (fastforce simp: patchLoop_step_skip)
    next
      case None
      show ?thesis
      proof (cases "ConfigMaps_Patch d i (Namespace (Items l ! i)) (Name (Items l ! i)) JSONPatchType pl")
        case (Some e)
        with lt True None Suc.prems show ?thesis
          by (auto simp: patchLoop_step_patch_fail)
      next
        case N2: None
        with lt True None Suc.prems Suc.hyps(1)[OF n] show ?thesis
          by (fastforce simp: patchLoop_step_patch_ok)
      qed
    qed
  qed
qed

lemma patchLoop_prefix:
  assumes "i \<le> k" "k \<le> ConfigMapList_Size d l" "k \<le> length (Items l)" "patchesOk d l pl i k"
  shows "patchLoop d l pl i w =
         patchLoop d l pl k (w\<lparr>trace := trace w @ concat (map (stepEvents d l pl) [i..<k])\<rparr>)"
  using assms
proof (induction "k - i" arbitrary: i w)
  case 0
  then show ?case by simp
next
  case (Suc n)
  then have lt: "i < k" and n: "n = k - Suc i" by simp_all
  have upt: "[i..<k] = i # [Suc i..<k]"
    using lt by (simp add: upt_conv_Cons)
  have ok: "patchesOk d l pl (Suc i) k"
    using Suc.prems(4) by (simp add: patchesOk_def upt)
  have il: "i < ConfigMapList_Size d l" "i < length (Items l)"
    using lt Suc.prems by simp_all
  have IH: "patchLoop d l pl (Suc i) w' =
         patchLoop d l pl k (w'\<lparr>trace := trace w' @ concat (map (stepEvents d l pl) [Suc i..<k])\<rparr>)" for w'
    using Suc.hyps(1)[OF n _ Suc.prems(2,3) ok] lt by simp
  show ?case
  proof (cases "checkFalcoRunsWithDrivers d (engineKindOf (Items l ! i))")
    case (Some err)
    then show ?thesis
      using il by (simp add: patchLoop_step_skip IH upt stepEvents_def emit_append)
  next
    case None
    then have "ConfigMaps_Patch d i (Namespace (Items l ! i)) (Name (Items l ! i)) JSONPatchType pl = None"
      using Suc.prems(4) by (simp add: patchesOk_def upt)
    then show ?thesis
      using il None by (simp add: patchLoop_step_patch_ok IH upt stepEvents_def emit_append)
  qed
qed

lemma K8S_enters_loop:
  assumes "clientAcquired d opts"
    and "ConfigMaps_List d (optNamespace opts) labelSelector = Inr l"
    and "ConfigMapList_Size d l \<noteq> 0"
  shows "replaceDriverTypeInK8SConfigMap d opts driverType w =
         patchLoop d l (json_Marshal d (payload d driverType)) 0
           (emit (ListCall (optNamespace opts) labelSelector) w)"
  using assms
  by (auto simp: replaceDriverTypeInK8SConfigMap_def clientAcquired_def Let_def
           split: option.splits if_splits)

lemma patchLoop_fail_at:
  assumes "i \<le> k" "k < ConfigMapList_Size d l" "k < length (Items l)" "patchesOk d l pl i k"
    and "checkFalcoRunsWithDrivers d (engineKindOf (Items l ! k)) = None"
    and "ConfigMaps_Patch d k (Namespace (Items l ! k)) (Name (Items l ! k)) JSONPatchType pl = Some e"
  shows "patchLoop d l pl i w =
         (Failure e,
          w\<lparr>trace := trace w @ concat (map (stepEvents d l pl) [i..<k]) @
                      [PatchCall k (Namespace (Items l ! k)) (Name (Items l ! k)) JSONPatchType pl]\<rparr>)"
proof -
  have "patchLoop d l pl i w =
        patchLoop d l pl k (w\<lparr>trace := trace w @ concat (map (stepEvents d l pl) [i..<k])\<rparr>)"
    using assms(1-4) by (intro patchLoop_prefix) simp_all
  also have "\<dots> = (Failure e,
          w\<lparr>trace := trace w @ concat (map (stepEvents d l pl) [i..<k]) @
                      [PatchCall k (Namespace (Items l ! k)) (Name (Items l ! k)) JSONPatchType pl]\<rparr>)"
    using assms(2,3,5,6) by (simp add: patchLoop_step_patch_fail emit_def)
  finally show ?thesis .
qed

lemma patchIndex_step:
  "ev \<in> set (stepEvents d l pl y) \<Longrightarrow> patchIndex ev = Some j \<Longrightarrow> j = y"
  by (auto simp: stepEvents_def split: option.splits)

lemma patchIndex_steps:
  "ev \<in> set (concat (map (stepEvents d l pl) [i..<k])) \<Longrightarrow> patchIndex ev = Some j \<Longrightarrow> i \<le> j \<and> j < k"
  by (auto dest: patchIndex_step)

lemma filter_steps_other:
  "filter (\<lambda>ev. patchIndex ev = Some k) (concat (map (stepEvents d l pl) [i..<k])) = []"
  using patchIndex_steps [of _ d l pl i k k] by (auto simp: filter_empty_conv)

lemma prefix_within:
  assumes "prefix old (xs @ ys)" and "length old \<le> length xs"
  shows "prefix old xs"
  using assms prefix_length_prefix [of old "xs @ ys" xs] by simp

lemma strings_Replace_first:
  assumes "old \<noteq> []"
    and "\<not> sublist old (pre @ butlast old)"
  shows "strings_Replace (pre @ old @ post) old new (Suc 0) = pre @ new @ post"
  using assms(2)
proof (induction pre)
  case Nil
  obtain c cs where old: "old = c # cs" using assms(1) by (cases old) auto
  show ?case by (simp add: old)
next
  case (Cons p pre)
  have split: "(p # pre) @ old @ post = ((p # pre) @ butlast old) @ last old # post"
    using assms(1) by simp
  have "\<not> prefix old ((p # pre) @ old @ post)"
  proof
    assume "prefix old ((p # pre) @ old @ post)"
    then have "prefix old (((p # pre) @ butlast old) @ last old # post)"
      by (simp only: split)
    then have "prefix old ((p # pre) @ butlast old)"
      by (rule prefix_within) simp
    then show False using Cons.prems by auto
  qed
  moreover have "\<not> sublist old (pre @ butlast old)"
    using Cons.prems by (auto simp: sublist_Cons_right)
  ultimately show ?case using Cons.IH by simp
qed

lemma strings_Replace_absent:
  assumes "\<not> sublist old s"
  shows "strings_Replace s old new (Suc 0) = s"
  using assms
proof (induction s)
  case Nil
  then show ?case by auto
next
  case (Cons c s)
  then show ?case by (auto simp: sublist_Cons_right)
qed

lemma local_skip:
  assumes "files w falcoCfgFile = Some f"
    and "yaml_Unmarshal d (content f) = Inr kind"
    and "checkFalcoRunsWithDrivers d kind = Some err"
  shows "replaceDriverTypeInFalcoConfig d driverType w =
         (Success, w\<lparr>trace := trace w @ [ReadFile falcoCfgFile,
                     Warn ''Avoid updating Falco configuration''
                       [(''config'', falcoCfgFile), (''reason'', err)]]\<rparr>)"
  using assms by (simp add: replaceDriverTypeInFalcoConfig_def os_ReadFile_def emit_def)

lemma local_replace:
  assumes "files w falcoCfgFile = Some f"
    and "yaml_Unmarshal d (content f) = Inr kind"
    and "checkFalcoRunsWithDrivers d kind = None"
  shows "replaceDriverTypeInFalcoConfig d driverType w =
         ReplaceTextInFile d falcoCfgFile (configKindKey @ kind)
           (configKindKey @ drivertype_String d driverType) 1 (emit (ReadFile falcoCfgFile) w)"
  using assms by (simp add: replaceDriverTypeInFalcoConfig_def os_ReadFile_def)

lemma ReplaceTextInFile_Success:
  assumes "files w filePath = Some f"
    and "fst (ReplaceTextInFile d filePath searchFor newText n w) = Success"
  shows "ReplaceTextInFile d filePath searchFor newText n w =
         (Success,
          w\<lparr>trace := trace w @ [WriteFile filePath (strings_Replace (content f) searchFor newText n) (mode f)],
            files := (files w)(filePath \<mapsto>
                       f\<lparr>content := strings_Replace (content f) searchFor newText n\<rparr>)\<rparr>)"
  using assms by (auto simp: ReplaceTextInFile_def Let_def emit_def split: option.splits)

lemmas fixture_defs = configMapA_def configMapB_def configMapC_def configMapD_def depsK8s_def
  optsK8s_def opts0_def deps0_def world0_def Parse_def ebpfPatch_def

lemmas model_defs = replaceDriverTypeInK8SConfigMap_def checkFalcoRunsWithDrivers_def
  engineKindOf_def payload_def json_Marshal_def emit_def labelSelector_def JSONPatchType_def
  configMapEngineKindKey_def Let_def

lemma patchLoop_through:
  assumes "i \<le> m" and "m = min (ConfigMapList_Size d l) (length (Items l))"
    and "patchesOk d l pl i m"
  shows "patchLoop d l pl i w =
         (if length (Items l) < ConfigMapList_Size d l then Panic ''index out of range'' else Success,
          w\<lparr>trace := trace w @ concat (map (stepEvents d l pl) [i..<m])\<rparr>)"
proof -
  have "patchLoop d l pl i w =
        patchLoop d l pl m (w\<lparr>trace := trace w @ concat (map (stepEvents d l pl) [i..<m])\<rparr>)"
    using assms by (intro patchLoop_prefix) simp_all
  also have "\<dots> = (if length (Items l) < ConfigMapList_Size d l then Panic ''index out of range'' else Success,
          w\<lparr>trace := trace w @ concat (map (stepEvents d l pl) [i..<m])\<rparr>)"
    using assms(2) by (simp add: patchLoop_step_panic patchLoop_step_done min_def)
  finally show ?thesis .
qed

lemma patchLoop_mono:
  "ev \<in> set (trace w) \<Longrightarrow> ev \<in> set (trace (snd (patchLoop d l pl i w)))"
proof (induction "ConfigMapList_Size d l - i" arbitrary: i w)
  case 0
  then show ?case by (simp add: patchLoop_step_done)
next
  case (Suc n)
  then have lt: "i < ConfigMapList_Size d l" and n: "n = ConfigMapList_Size d l - Suc i"
    by simp_all
  show ?case
  proof (cases "i < length (Items l)")
    case False
    with lt Suc.prems show ?thesis by (simp add: patchLoop_step_panic)
  next
    case True
    show ?thesis
    proof (cases "checkFalcoRunsWithDrivers d (engineKindOf (Items l ! i))")
      case (Some err)
      with lt True Suc.prems Suc.hyps(1)[OF n] show ?thesis
        by (simp add: patchLoop_step_skip)
    next
      case None
      show ?thesis
      proof (cases "ConfigMaps_Patch d i (Namespace (Items l ! i)) (Name (Items l ! i)) JSONPatchType pl")
        case (Some e)
        with lt True None Suc.prems show ?thesis
          by (simp add: patchLoop_step_patch_fail)
      next
        case N2: None
        with lt True None Suc.prems Suc.hyps(1)[OF n] show ?thesis
          by (simp add: patchLoop_step_patch_ok)
      qed
    qed
  qed
qed

lemma patchLoop_no_store:
  "StoreCall c f \<in> set (trace (snd (patchLoop d l pl i w))) \<Longrightarrow> StoreCall c f \<in> set (trace w)"
proof (induction "ConfigMapList_Size d l - i" arbitrary: i w)
  case 0
  then show ?case by (simp add: patchLoop_step_done)
next
  case (Suc n)
  then have lt: "i < ConfigMapList_Size d l" and n: "n = ConfigMapList_Size d l - Suc i"
    by simp_all
  show ?case
  proof (cases "i < length (Items l)")
    case False
    with lt Suc.prems show ?thesis by (simp add: patchLoop_step_panic)
  next
    case True
    show ?thesis
    proof (cases "checkFalcoRunsWithDrivers d (engineKindOf (Items l ! i))")
      case (Some err)
      with lt True Suc.prems Suc.hyps(1)[OF n] show ?thesis
        by (fastforce simp: patchLoop_step_skip)
    next
      case None
      show ?thesis
      proof (cases "ConfigMaps_Patch d i (Namespace (Items l ! i)) (Name (Items l ! i)) JSONPatchType pl")
        case (Some e)
        with lt True None Suc.prems show ?thesis
          by (auto simp: patchLoop_step_patch_fail)
      next
        case N2: None
        with lt True None Suc.prems Suc.hyps(1)[OF n] show ?thesis
          by (fastforce simp: patchLoop_step_patch_ok)
      qed
    qed
  qed
qed

lemma K8S_frame:
  "files (snd (replaceDriverTypeInK8SConfigMap d opts driverType w)) = files w
   \<and> store (snd (replaceDriverTypeInK8SConfigMap d opts driverType w)) = store w"
  by (simp add: replaceDriverTypeInK8SConfigMap_def Let_def patchLoop_frame
           split: option.split sum.split)

lemma K8S_no_store:
  "StoreCall c f \<in> set (trace (snd (replaceDriverTypeInK8SConfigMap d opts driverType w)))
   \<Longrightarrow> StoreCall c f \<in> set (trace w)"
  by (auto simp: replaceDriverTypeInK8SConfigMap_def Let_def
           split: option.splits sum.splits if_splits dest!: patchLoop_no_store)

lemma K8S_patches:
  assumes "PatchCall j ns nm pt body \<in> set (trace (snd (replaceDriverTypeInK8SConfigMap d opts driverType w)))"
    and "PatchCall j ns nm pt body \<notin> set (trace w)"
  shows "\<exists>l. ConfigMaps_List d (optNamespace opts) labelSelector = Inr l \<and>
             j < length (Items l) \<and> j < ConfigMapList_Size d l \<and>
             checkFalcoRunsWithDrivers d (engineKindOf (Items l ! j)) = None \<and>
             ns = Namespace (Items l ! j) \<and> nm = Name (Items l ! j) \<and> pt = JSONPatchType \<and>
             body = json_Marshal d (payload d driverType)"
  using assms
  by (auto simp: replaceDriverTypeInK8SConfigMap_def Let_def
           split: option.splits sum.splits if_splits dest!: patchLoop_patches)

lemma K8S_empty_listing:
  assumes "clientAcquired d opts"
    and "ConfigMaps_List d (optNamespace opts) labelSelector = Inr l"
    and "Items l = []"
  shows "replaceDriverTypeInK8SConfigMap d opts driverType w =
         (if ConfigMapList_Size d l = 0 then Failure noConfigMaps else Panic ''index out of range'',
          emit (ListCall (optNamespace opts) labelSelector) w)"
proof (cases "ConfigMapList_Size d l = 0")
  case True
  then show ?thesis using assms
    by (auto simp: replaceDriverTypeInK8SConfigMap_def clientAcquired_def Let_def split: if_splits)
next
  case False
  then show ?thesis
    using assms(3) by (simp add: K8S_enters_loop [OF assms(1,2) False] patchLoop_step_panic)
qed

lemma K8S_whole_listing:
  assumes "clientAcquired d opts"
    and "ConfigMaps_List d (optNamespace opts) labelSelector = Inr l"
    and "ConfigMapList_Size d l \<noteq> 0"
    and "m = min (ConfigMapList_Size d l) (length (Items l))"
    and "pl = json_Marshal d (payload d driverType)"
    and "patchesOk d l pl 0 m"
  shows "replaceDriverTypeInK8SConfigMap d opts driverType w =
         (if length (Items l) < ConfigMapList_Size d l then Panic ''index out of range'' else Success,
          w\<lparr>trace := trace w @ ListCall (optNamespace opts) labelSelector #
                      concat (map (stepEvents d l pl) [0..<m])\<rparr>)"
  unfolding K8S_enters_loop [OF assms(1,2,3)] assms(5) [symmetric]
  using patchLoop_through [OF _ assms(4,6), of "emit (ListCall (optNamespace opts) labelSelector) w"]
  by (simp add: emit_def)

lemma local_frame:
  "store (snd (replaceDriverTypeInFalcoConfig d driverType w)) = store w"
  by (simp add: replaceDriverTypeInFalcoConfig_def os_ReadFile_def ReplaceTextInFile_def Let_def
           split: option.split sum.split)

lemma local_no_store:
  "StoreCall c f \<in> set (trace (snd (replaceDriverTypeInFalcoConfig d driverType w)))
   \<Longrightarrow> StoreCall c f \<in> set (trace w)"
  by (auto simp: replaceDriverTypeInFalcoConfig_def os_ReadFile_def ReplaceTextInFile_def Let_def
           split: option.splits sum.splits)

lemma commit_no_store:
  "store (snd (commit d opts driverType w)) = store w
   \<and> (StoreCall c f \<in> set (trace (snd (commit d opts driverType w))) \<longrightarrow> StoreCall c f \<in> set (trace w))"
  using K8S_frame [of d opts driverType w] K8S_no_store [of c f d opts driverType w]
        local_frame [of d driverType w] local_no_store [of c f d driverType w]
  by (simp add: commit_def)

lemma StoreDriver_eq:
  "StoreDriver d cfg path w =
     (case os_WriteFile d path of
        Some err \<Rightarrow> (Failure err, w\<lparr>trace := trace w @ [StoreCall cfg path]\<rparr>)
      | None \<Rightarrow> (Success, w\<lparr>trace := trace w @ [StoreCall cfg path],
                              store := (store w)(path \<mapsto> cfg)\<rparr>))"
  by (simp add: StoreDriver_def Let_def emit_def split: option.split)

lemma RunDriverConfig_update:
  assumes "Update opts"
  shows "RunDriverConfig d opts w =
         (case fst (commit d opts (Type (Driver opts)) (emit (runningInfo d opts) w)) of
            Success \<Rightarrow> StoreDriver d (ToDriverConfig d (Driver opts)) (ConfigFile opts)
                         (snd (commit d opts (Type (Driver opts)) (emit (runningInfo d opts) w)))
          | Failure err \<Rightarrow> commit d opts (Type (Driver opts)) (emit (runningInfo d opts) w)
          | Panic p \<Rightarrow> commit d opts (Type (Driver opts)) (emit (runningInfo d opts) w))"
  using assms by (simp add: RunDriverConfig_def Let_def split: prod.split outcome.split)

lemmas local_defs = falcoYaml_def depsLocal_def worldLocal_def deps0_def world0_def opts0_def
  Parse_def falcoCfgFile_def configKindKey_def replaceDriverTypeInFalcoConfig_def
  os_ReadFile_def ReplaceTextInFile_def checkFalcoRunsWithDrivers_def emit_def Let_def

text \<open>
  The cluster patcher does not return nil when \<open>Size()\<close> of the listing is more than the
  number of its items: the loop ends in a rejected patch or in the panic.
\<close>

lemma patchLoop_not_Success:
  assumes "length (Items l) < ConfigMapList_Size d l" and "i \<le> length (Items l)"
  shows "fst (patchLoop d l pl i w) \<noteq> Success"
  using assms(2)
proof (induction "length (Items l) - i" arbitrary: i w)
  case 0
  then have "i = length (Items l)" by simp
  then show ?case using assms(1) by (simp add: patchLoop_step_panic)
next
  case (Suc n)
  then have il: "i < length (Items l)" and n: "n = length (Items l) - Suc i" by simp_all
  have lt: "i < ConfigMapList_Size d l" using il assms(1) by simp
  have IH: "fst (patchLoop d l pl (Suc i) w') \<noteq> Success" for w'
    using Suc.hyps(1)[OF n] il by simp
  show ?case
  proof (cases "checkFalcoRunsWithDrivers d (engineKindOf (Items l ! i))")
    case (Some err)
    then show ?thesis using lt il IH by (simp add: patchLoop_step_skip)
  next
    case None
    show ?thesis
    proof (cases "ConfigMaps_Patch d i (Namespace (Items l ! i)) (Name (Items l ! i)) JSONPatchType pl")
      case (Some e)
      with lt il None show ?thesis by (simp add: patchLoop_step_patch_fail)
    next
      case N2: None
      with lt il None IH show ?thesis by (simp add: patchLoop_step_patch_ok)
    qed
  qed
qed

lemma K8S_never_succeeds:
  assumes "\<And>l. ConfigMaps_List d (optNamespace opts) labelSelector = Inr l
              \<Longrightarrow> length (Items l) < ConfigMapList_Size d l"
  shows "fst (replaceDriverTypeInK8SConfigMap d opts driverType w) \<noteq> Success"
  using assms
  by (auto simp: replaceDriverTypeInK8SConfigMap_def Let_def patchLoop_not_Success
           split: option.splits sum.splits)

text \<open>
  \<open>RunDriverConfig\<close> with the update flag set: \<open>StoreDriver\<close> is called, with the driver
  of the options, exactly when the commit returned nil; otherwise the command ends with
  the result of the commit, the store is as it was and the trace has no new store call.
\<close>

lemma store_follows_commit:
  assumes "Update opts"
    and "c = commit d opts (Type (Driver opts)) (emit (runningInfo d opts) w)"
    and "cfg = ToDriverConfig d (Driver opts)"
    and "r = RunDriverConfig d opts w"
  shows "(fst c = Success \<longrightarrow>
            r = StoreDriver d cfg (ConfigFile opts) (snd c)
          \<and> trace (snd r) = trace (snd c) @ [StoreCall cfg (ConfigFile opts)]
          \<and> (os_WriteFile d (ConfigFile opts) = None \<longrightarrow>
               fst r = Success \<and> store (snd r) = (store w)(ConfigFile opts \<mapsto> cfg)))
       \<and> (fst c \<noteq> Success \<longrightarrow>
            r = c \<and> store (snd r) = store w
          \<and> (\<forall>cfg' path. StoreCall cfg' path \<in> set (trace (snd r)) \<longrightarrow>
                           StoreCall cfg' path \<in> set (trace w)))"
proof -
  have fr: "store (snd c) = store w"
    and ns: "StoreCall cfg' path \<in> set (trace (snd c)) \<Longrightarrow> StoreCall cfg' path \<in> set (trace w)"
    for cfg' path
    using commit_no_store [of d opts "Type (Driver opts)" "emit (runningInfo d opts) w" cfg' path]
    unfolding assms(2) by (auto simp: runningInfo_def)
  show ?thesis
  proof (cases "fst c")
    case Success
    then have "r = StoreDriver d cfg (ConfigFile opts) (snd c)"
      using assms by (simp add: RunDriverConfig_update)
    then show ?thesis using Success fr
      by (simp add: StoreDriver_eq split: option.split)
  next
    case (Failure err)
    then have "r = c"
      using assms by (simp add: RunDriverConfig_update)
    then show ?thesis using Failure fr ns by auto
  next
    case (Panic p)
    then have "r = c"
      using assms by (simp add: RunDriverConfig_update)
    then show ?thesis using Panic fr ns by auto
  qed
qed

lemma store_follows_commit_example:
  "fst (commit (depsLocal ''gvisor'') opts0 Ebpf
          (emit (runningInfo (depsLocal ''gvisor'') opts0) (worldLocal ''gvisor''))) = Success
   \<and> fst (RunDriverConfig (depsLocal ''gvisor'') opts0 (worldLocal ''gvisor'')) = Success
   \<and> store (snd (RunDriverConfig (depsLocal ''gvisor'') opts0 (worldLocal ''gvisor'')))
       = [''/etc/falcoctl/falcoctl.yaml'' \<mapsto> driverCfg0]
   \<and> fst (commit deps0 opts0 Ebpf (emit (runningInfo deps0 opts0) world0))
       = Failure ''open /etc/falco/falco.yaml: no such file or directory''
   \<and> RunDriverConfig deps0 opts0 world0
       = commit deps0 opts0 Ebpf (emit (runningInfo deps0 opts0) world0)
   \<and> store (snd (RunDriverConfig deps0 opts0 world0)) = Map.empty"
proof -
  let ?d = "depsLocal ''gvisor''" and ?w = "worldLocal ''gvisor''"
  have u: "Update opts0" by (simp add: opts0_def)
  have t: "Type (Driver opts0) = Ebpf" by (simp add: opts0_def)
  have cf: "ConfigFile opts0 = ''/etc/falcoctl/falcoctl.yaml''" by (simp add: opts0_def)
  have st: "store ?w = Map.empty" "store world0 = Map.empty"
    by (simp_all add: worldLocal_def world0_def)
  have c1: "fst (commit ?d opts0 (Type (Driver opts0)) (emit (runningInfo ?d opts0) ?w)) = Success"
    unfolding t by (simp add: commit_def local_defs)
  have c2: "fst (commit deps0 opts0 (Type (Driver opts0)) (emit (runningInfo deps0 opts0) world0))
       = Failure ''open /etc/falco/falco.yaml: no such file or directory''"
    unfolding t by (simp add: commit_def local_defs)
  have w: "os_WriteFile ?d (ConfigFile opts0) = None"
    by (simp add: depsLocal_def deps0_def)
  have cfg: "ToDriverConfig ?d (Driver opts0) = driverCfg0"
    by (simp add: ToDriverConfig_def driverCfg0_def depsLocal_def deps0_def opts0_def)
  from store_follows_commit [OF u refl refl refl, of ?d ?w] c1 w
  have s1: "fst (RunDriverConfig ?d opts0 ?w) = Success
            \<and> store (snd (RunDriverConfig ?d opts0 ?w))
              = (store ?w)(ConfigFile opts0 \<mapsto> ToDriverConfig ?d (Driver opts0))"
    by blast
  have ne: "fst (commit deps0 opts0 (Type (Driver opts0)) (emit (runningInfo deps0 opts0) world0))
            \<noteq> Success"
    unfolding c2 by simp
  from store_follows_commit [OF u refl refl refl, of deps0 world0] ne
  have s2: "RunDriverConfig deps0 opts0 world0
              = commit deps0 opts0 (Type (Driver opts0)) (emit (runningInfo deps0 opts0) world0)
            \<and> store (snd (RunDriverConfig deps0 opts0 world0)) = store world0"
    by blast
  show ?thesis
    using s1 s2 c1 c2 unfolding t cf cfg st by blast
qed

subsection \<open>The claims\<close>

text \<open>
  C1. A listing without items, in a cluster that answers every call. \<open>Size()\<close> of the
  list is not zero (it counts the bytes of the encoded list, here 2), so the function does
  not return the error for no config maps: it enters the loop and reads \<open>Items[0]\<close> of
  an empty slice, which panics. No patch request is made.
\<close>

theorem empty_listing_panics:
  "replaceDriverTypeInK8SConfigMap (depsK8s [] 2) optsK8s Ebpf world0 =
     (Panic ''index out of range'',
      world0\<lparr>trace := [ListCall ''falco'' ''app.kubernetes.io/instance: falco'']\<rparr>)"
  by (simp add: fixture_defs model_defs patchLoop.simps)

text \<open>
  C2. A listing of three config maps of which the second is not driver driven, in a
  cluster that accepts every patch. The first and the third are patched and the second is
  skipped with a warning; then the loop goes on, since its bound is \<open>Size()\<close> and not the
  number of items, and the read of \<open>Items[3]\<close> panics: the function does not return.
\<close>

theorem one_skip_among_three_panics:
  "replaceDriverTypeInK8SConfigMap (depsK8s [configMapA, configMapB, configMapC] 200) optsK8s Ebpf world0 =
     (Panic ''index out of range'',
      world0\<lparr>trace :=
        [ListCall ''falco'' ''app.kubernetes.io/instance: falco'',
         PatchCall 0 ''falco'' ''falco-a'' ''application/json-patch+json'' ebpfPatch,
         Warn ''Avoid updating Falco configMap''
           [(''configMap'', ''falco-b''), (''reason'', ''engine.kind is not driver driven: gvisor'')],
         PatchCall 2 ''falco'' ''falco-c'' ''application/json-patch+json'' ebpfPatch]\<rparr>)"
  by (simp add: fixture_defs model_defs patchLoop.simps)

text \<open>
  C3. When the client was acquired and the listing answered, and the patch request for
  the resource at position \<open>k\<close> is the first that the API server rejects, the function
  returns that error. The trace of the run is the listing, the steps of the resources
  before \<open>k\<close>, and the rejected request: so no request is made for a position beyond
  \<open>k\<close>, and exactly one for \<open>k\<close>.
\<close>

theorem patch_failure_aborts:
  assumes "clientAcquired d opts"
    and "ConfigMaps_List d (optNamespace opts) labelSelector = Inr l"
    and "k < length (Items l)" and "k < ConfigMapList_Size d l"
    and "pl = json_Marshal d (payload d driverType)"
    and "checkFalcoRunsWithDrivers d (engineKindOf (Items l ! k)) = None"
    and "patchesOk d l pl 0 k"
    and "ConfigMaps_Patch d k (Namespace (Items l ! k)) (Name (Items l ! k)) JSONPatchType pl = Some e"
    and "r = replaceDriverTypeInK8SConfigMap d opts driverType w"
  shows "fst r = Failure e
       \<and> trace (snd r) = trace w @ ListCall (optNamespace opts) labelSelector #
                          concat (map (stepEvents d l pl) [0..<k]) @
                          [PatchCall k (Namespace (Items l ! k)) (Name (Items l ! k)) JSONPatchType pl]
       \<and> (\<forall>ev j. ev \<in> set (trace (snd r)) \<and> patchIndex ev = Some j \<longrightarrow> ev \<in> set (trace w) \<or> j \<le> k)
       \<and> length (filter (\<lambda>ev. patchIndex ev = Some k) (trace (snd r)))
           = Suc (length (filter (\<lambda>ev. patchIndex ev = Some k) (trace w)))"
proof -
  have nz: "ConfigMapList_Size d l \<noteq> 0" using assms(4) by simp
  have r: "r = (Failure e,
          w\<lparr>trace := trace w @ ListCall (optNamespace opts) labelSelector #
                      concat (map (stepEvents d l pl) [0..<k]) @
                      [PatchCall k (Namespace (Items l ! k)) (Name (Items l ! k)) JSONPatchType pl]\<rparr>)"
    unfolding assms(9) K8S_enters_loop[OF assms(1,2) nz] assms(5)[symmetric]
    using patchLoop_fail_at[OF _ assms(4,3,7,6,8), of "emit (ListCall (optNamespace opts) labelSelector) w"]
    by (simp add: emit_def)
  have b: "ev \<in> set (trace w) \<or> j \<le> k"
    if "ev \<in> set (trace (snd r))" "patchIndex ev = Some j" for ev j
    using that patchIndex_steps[of ev d l pl 0 k j] unfolding r by fastforce
  have c: "length (filter (\<lambda>ev. patchIndex ev = Some k) (trace (snd r)))
           = Suc (length (filter (\<lambda>ev. patchIndex ev = Some k) (trace w)))"
    unfolding r by (simp add: filter_steps_other)
  show ?thesis using b c by (simp add: r)
qed

theorem patch_failure_aborts_witness:
  "fst (replaceDriverTypeInK8SConfigMap depsPatchFails optsK8s Ebpf world0) = Failure ''forbidden''
   \<and> trace (snd (replaceDriverTypeInK8SConfigMap depsPatchFails optsK8s Ebpf world0)) =
       [ListCall ''falco'' ''app.kubernetes.io/instance: falco'',
        PatchCall 0 ''falco'' ''falco-a'' ''application/json-patch+json'' ebpfPatch,
        Warn ''Avoid updating Falco configMap''
          [(''configMap'', ''falco-b''), (''reason'', ''engine.kind is not driver driven: gvisor'')],
        PatchCall 2 ''falco'' ''falco-c'' ''application/json-patch+json'' ebpfPatch]"
proof -
  let ?l = "\<lparr>Items = [configMapA, configMapB, configMapC]\<rparr>"
  have h1: "clientAcquired depsPatchFails optsK8s"
    by (simp add: clientAcquired_def depsPatchFails_def fixture_defs)
  have h2: "ConfigMaps_List depsPatchFails (optNamespace optsK8s) labelSelector = Inr ?l"
    by (simp add: depsPatchFails_def fixture_defs)
  have h3: "2 < length (Items ?l)" by simp
  have h4: "2 < ConfigMapList_Size depsPatchFails ?l"
    by (simp add: depsPatchFails_def fixture_defs)
  have h5: "ebpfPatch = json_Marshal depsPatchFails (payload depsPatchFails Ebpf)"
    by (simp add: depsPatchFails_def fixture_defs model_defs)
  have h6: "checkFalcoRunsWithDrivers depsPatchFails (engineKindOf (Items ?l ! 2)) = None"
    by (simp add: depsPatchFails_def fixture_defs model_defs)
  have h7: "patchesOk depsPatchFails ?l ebpfPatch 0 2"
    by (simp add: patchesOk_def depsPatchFails_def fixture_defs upt_rec)
  have h8: "ConfigMaps_Patch depsPatchFails 2 (Namespace (Items ?l ! 2)) (Name (Items ?l ! 2))
              JSONPatchType ebpfPatch = Some ''forbidden''"
    by (simp add: depsPatchFails_def fixture_defs)
  show ?thesis
    using patch_failure_aborts [OF h1 h2 h3 h4 h5 h6 h7 h8 refl, of world0]
    by (simp add: stepEvents_def depsPatchFails_def fixture_defs checkFalcoRunsWithDrivers_def
          engineKindOf_def labelSelector_def JSONPatchType_def configMapEngineKindKey_def
          upt_rec)
qed

text \<open>
  C4. A run of the local patcher that succeeds on a file whose engine kind parses to a
  driver type writes the file, at the same path and with the same mode, with the first
  occurrence of \<open>kind: <old>\<close> replaced by \<open>kind: <new>\<close>: what precedes and what follows
  the occurrence is kept as it is, and no other file changes. (When the text does not
  occur, which the spec allows for, the content written is the content read.)
\<close>

theorem local_patch_first_occurrence:
  assumes "files w falcoCfgFile = Some f"
    and "yaml_Unmarshal d (content f) = Inr kind"
    and "drivertype_Parse d kind = Inr t"
    and "r = replaceDriverTypeInFalcoConfig d driverType w"
    and "fst r = Success"
    and "old = ''kind: '' @ kind"
    and "new = ''kind: '' @ drivertype_String d driverType"
  shows "(\<forall>pre post. content f = pre @ old @ post \<and> \<not> sublist old (pre @ butlast old) \<longrightarrow>
            files (snd r) = (files w)(falcoCfgFile \<mapsto> f\<lparr>content := pre @ new @ post\<rparr>)
          \<and> trace (snd r) = trace w @ [ReadFile falcoCfgFile,
                                        WriteFile falcoCfgFile (pre @ new @ post) (mode f)])
       \<and> (\<not> sublist old (content f) \<longrightarrow>
            files (snd r) = files w
          \<and> trace (snd r) = trace w @ [ReadFile falcoCfgFile,
                                        WriteFile falcoCfgFile (content f) (mode f)])
       \<and> store (snd r) = store w"
proof -
  have chk: "checkFalcoRunsWithDrivers d kind = None"
    using assms(3) by (simp add: checkFalcoRunsWithDrivers_def)
  have f1: "files (emit (ReadFile falcoCfgFile) w) falcoCfgFile = Some f"
    using assms(1) by simp
  have r1: "r = ReplaceTextInFile d falcoCfgFile old new 1 (emit (ReadFile falcoCfgFile) w)"
    unfolding assms(4) local_replace[OF assms(1,2) chk] by (simp add: assms(6,7) configKindKey_def)
  have r2: "r = (Success,
          (emit (ReadFile falcoCfgFile) w)\<lparr>trace := trace (emit (ReadFile falcoCfgFile) w) @
              [WriteFile falcoCfgFile (strings_Replace (content f) old new 1) (mode f)],
            files := (files (emit (ReadFile falcoCfgFile) w))(falcoCfgFile \<mapsto>
                       f\<lparr>content := strings_Replace (content f) old new 1\<rparr>)\<rparr>)"
    using ReplaceTextInFile_Success[OF f1, of d old new 1] assms(5) unfolding r1 by simp
  have ne: "old \<noteq> []" by (simp add: assms(6))
  have same: "(files w)(falcoCfgFile \<mapsto> f\<lparr>content := content f\<rparr>) = files w"
    using assms(1) by (simp add: map_upd_triv)
  show ?thesis
    unfolding r2 using ne same
    by (auto simp: strings_Replace_first strings_Replace_absent)
qed

theorem local_patch_first_occurrence_witness:
  "fst (replaceDriverTypeInFalcoConfig (depsLocal ''kernel-module'') Ebpf (worldLocal ''kernel-module''))
     = Success
   \<and> files (snd (replaceDriverTypeInFalcoConfig (depsLocal ''kernel-module'') Ebpf
                    (worldLocal ''kernel-module'')))
     = [falcoCfgFile \<mapsto> \<lparr>content = falcoYaml ''ebpf'', mode = 420\<rparr>]"
proof -
  let ?d = "depsLocal ''kernel-module''" and ?w = "worldLocal ''kernel-module''"
  let ?f = "\<lparr>content = falcoYaml ''kernel-module'', mode = 420\<rparr>"
  let ?pre = "''engine:'' @ [CHR 0x0A] @ ''  ''" and ?post = "[CHR 0x0A]"
  have h1: "files ?w falcoCfgFile = Some ?f" by (simp add: worldLocal_def world0_def)
  have h2: "yaml_Unmarshal ?d (content ?f) = Inr ''kernel-module''"
    by (simp add: depsLocal_def deps0_def)
  have h3: "drivertype_Parse ?d ''kernel-module'' = Inr KernelModule"
    by (simp add: depsLocal_def deps0_def Parse_def)
  have h5: "fst (replaceDriverTypeInFalcoConfig ?d Ebpf ?w) = Success"
    by (simp add: local_defs)
  have occ: "content ?f = ?pre @ (''kind: '' @ ''kernel-module'') @ ?post
             \<and> \<not> sublist (''kind: '' @ ''kernel-module'') (?pre @ butlast (''kind: '' @ ''kernel-module''))"
    by (simp add: falcoYaml_def sublist_code)
  from local_patch_first_occurrence [OF h1 h2 h3 refl h5 refl refl]
  have "files (snd (replaceDriverTypeInFalcoConfig ?d Ebpf ?w))
        = (files ?w)(falcoCfgFile \<mapsto> ?f\<lparr>content := ?pre @ (''kind: '' @ drivertype_String ?d Ebpf) @ ?post\<rparr>)"
    using occ by blast
  then show ?thesis using h5
    by (simp add: depsLocal_def deps0_def worldLocal_def world0_def falcoYaml_def)
qed

text \<open>
  C5. A listing of one config map whose engine kind is gvisor. The config map is not
  patched and the reason is logged, but the function does not report success: after the
  skip the loop reads \<open>Items[1]\<close>, which panics. (For the local file, \<open>local_skip\<close>
  above gives the whole claim: success, a warning, and no write.)
\<close>

theorem skipped_config_map_panics:
  "replaceDriverTypeInK8SConfigMap (depsK8s [configMapB] 60) optsK8s Ebpf world0 =
     (Panic ''index out of range'',
      world0\<lparr>trace :=
        [ListCall ''falco'' ''app.kubernetes.io/instance: falco'',
         Warn ''Avoid updating Falco configMap''
           [(''configMap'', ''falco-b''), (''reason'', ''engine.kind is not driver driven: gvisor'')]]\<rparr>)"
  by (simp add: fixture_defs model_defs patchLoop.simps)

text \<open>
  C6. The validator is a function of the engine kind alone (it neither takes nor returns
  a world). It succeeds exactly when the engine kind parses to a driver type, and when
  it fails, the error it returns is a fixed prefix followed by the original string.
\<close>

theorem checkFalcoRunsWithDrivers_iff:
  "(checkFalcoRunsWithDrivers d engineKind = None \<longleftrightarrow> (\<exists>t. drivertype_Parse d engineKind = Inr t))
   \<and> (checkFalcoRunsWithDrivers d engineKind \<noteq> None \<longrightarrow>
        checkFalcoRunsWithDrivers d engineKind
          = Some (''engine.kind is not driver driven: '' @ engineKind))"
  by (simp add: checkFalcoRunsWithDrivers_def split: sum.split)

theorem checkFalcoRunsWithDrivers_iff_witness:
  "(checkFalcoRunsWithDrivers deps0 ''ebpf'' = None \<longleftrightarrow> (\<exists>t. drivertype_Parse deps0 ''ebpf'' = Inr t))
   \<and> checkFalcoRunsWithDrivers deps0 ''gvisor'' = Some ''engine.kind is not driver driven: gvisor''"
  using checkFalcoRunsWithDrivers_iff [of deps0 "''ebpf''"]
        checkFalcoRunsWithDrivers_iff [of deps0 "''gvisor''"]
  by (simp add: checkFalcoRunsWithDrivers_def deps0_def Parse_def)

text \<open>
  C7. The update flag set, the namespace falco, and a listing of one config map whose
  engine kind is gvisor, so that every target is skipped. The commit does not succeed:
  after the skip the loop reads \<open>Items[1]\<close>, which panics, and the command ends there.
  \<open>StoreDriver\<close> is not reached: the store is as it was and the trace has no store call.
  (The rest of the claim holds, by \<open>store_follows_commit\<close> above: the store is written
  exactly when the commit returns nil, as the local patcher does on a skip, and never
  after an error. By \<open>K8S_never_succeeds\<close> the cluster patcher returns nil in no run in
  which \<open>Size()\<close> is more than the number of items.)
\<close>

theorem all_skipped_cluster_not_stored:
  "RunDriverConfig (depsK8s [configMapB] 63) optsK8s world0 =
     (Panic ''index out of range'',
      world0\<lparr>trace :=
        [Info ''Running falcoctl driver config''
           [(''name'', ''falco''), (''version'', ''7.0.0''), (''type'', ''ebpf''),
            (''host-root'', ''/host''), (''repos'', ''https://download.falco.org/driver'')],
         ListCall ''falco'' ''app.kubernetes.io/instance: falco'',
         Warn ''Avoid updating Falco configMap''
           [(''configMap'', ''falco-b''), (''reason'', ''engine.kind is not driver driven: gvisor'')]]\<rparr>)"
  by (simp add: RunDriverConfig_def runningInfo_def commit_def fixture_defs model_defs
        patchLoop.simps)

text \<open>
  C8. Every patch request that a run of the cluster patcher makes has the patch type
  JSON patch and, as body, the JSON array of the single operation with \<open>op\<close> replace,
  \<open>path\<close> /data/engine.kind and \<open>value\<close> the string of the new driver type; it is made
  for a resource of the listing whose engine kind parses, under its namespace and name.
\<close>

theorem patch_payload_shape:
  assumes "PatchCall j ns nm pt body \<in> set (trace (snd (replaceDriverTypeInK8SConfigMap d opts driverType w)))"
    and "PatchCall j ns nm pt body \<notin> set (trace w)"
  shows "pt = ''application/json-patch+json''
       \<and> body = json_Marshal d [\<lparr>Op = ''replace'', Path = ''/data/engine.kind'',
                                  Value = drivertype_String d driverType\<rparr>]
       \<and> body = ''[{\"op\":'' @ json_String d ''replace'' @
                 '',\"path\":'' @ json_String d ''/data/engine.kind'' @
                 '',\"value\":'' @ json_String d (drivertype_String d driverType) @ ''}]''
       \<and> (\<exists>l. ConfigMaps_List d (optNamespace opts) labelSelector = Inr l \<and>
                j < length (Items l) \<and>
                (\<exists>t. drivertype_Parse d (engineKindOf (Items l ! j)) = Inr t) \<and>
                ns = Namespace (Items l ! j) \<and> nm = Name (Items l ! j))"
proof -
  obtain l where l: "ConfigMaps_List d (optNamespace opts) labelSelector = Inr l"
      "j < length (Items l)" "checkFalcoRunsWithDrivers d (engineKindOf (Items l ! j)) = None"
      "ns = Namespace (Items l ! j)" "nm = Name (Items l ! j)" "pt = JSONPatchType"
      "body = json_Marshal d (payload d driverType)"
    using K8S_patches [OF assms] by blast
  have "\<exists>t. drivertype_Parse d (engineKindOf (Items l ! j)) = Inr t"
    using l(3) by (simp add: checkFalcoRunsWithDrivers_def split: sum.splits)
  then show ?thesis using l
    by (simp add: JSONPatchType_def payload_def json_Marshal_def configMapEngineKindKey_def)
qed

theorem patch_payload_shape_witness:
  "PatchCall 0 ''falco'' ''falco-a'' ''application/json-patch+json'' ebpfPatch
     \<in> set (trace (snd (replaceDriverTypeInK8SConfigMap (depsK8s [configMapA] 60) optsK8s Ebpf world0)))
   \<and> ebpfPatch = json_Marshal (depsK8s [configMapA] 60)
                   [\<lparr>Op = ''replace'', Path = ''/data/engine.kind'', Value = ''ebpf''\<rparr>]
   \<and> ebpfPatch = ''[{\"op\":\"replace\",\"path\":\"/data/engine.kind\",\"value\":\"ebpf\"}]''"
proof -
  have h1: "PatchCall 0 ''falco'' ''falco-a'' ''application/json-patch+json'' ebpfPatch
     \<in> set (trace (snd (replaceDriverTypeInK8SConfigMap (depsK8s [configMapA] 60) optsK8s Ebpf world0)))"
    by (simp add: fixture_defs model_defs patchLoop.simps)
  have h2: "PatchCall 0 ''falco'' ''falco-a'' ''application/json-patch+json'' ebpfPatch
     \<notin> set (trace world0)"
    by (simp add: world0_def)
  show ?thesis
    using patch_payload_shape [OF h1 h2] h1
    by (simp add: depsK8s_def deps0_def ebpfPatch_def)
qed

text \<open>
  C9. For a resource of the listing whose data has no key engine.kind (the empty string
  being no driver type): the engine kind read is the empty string; the loop body logs
  the warning and goes on with the next position, so the missing key is no error; the
  warning is in the trace of every run that reaches the resource; and no run makes a
  patch request for it.
\<close>

theorem missing_key_skipped:
  assumes "ConfigMaps_List d (optNamespace opts) labelSelector = Inr l"
    and "k < length (Items l)"
    and "Data (Items l ! k) configMapEngineKindKey = None"
    and "drivertype_Parse d [] = Inl perr"
    and "warning = Warn ''Avoid updating Falco configMap''
                     [(''configMap'', Name (Items l ! k)),
                      (''reason'', ''engine.kind is not driver driven: '')]"
  shows "engineKindOf (Items l ! k) = []
       \<and> (k < ConfigMapList_Size d l \<longrightarrow>
            (\<forall>pl w. patchLoop d l pl k w = patchLoop d l pl (Suc k) (emit warning w)))
       \<and> (\<forall>driverType w.
            clientAcquired d opts \<and> k < ConfigMapList_Size d l \<and>
            patchesOk d l (json_Marshal d (payload d driverType)) 0 k \<longrightarrow>
            warning \<in> set (trace (snd (replaceDriverTypeInK8SConfigMap d opts driverType w))))
       \<and> (\<forall>driverType w ns nm pt body.
            PatchCall k ns nm pt body \<in> set (trace (snd (replaceDriverTypeInK8SConfigMap d opts driverType w)))
            \<longrightarrow> PatchCall k ns nm pt body \<in> set (trace w))"
proof -
  have ek: "engineKindOf (Items l ! k) = []"
    using assms(3) by (simp add: engineKindOf_def)
  have chk: "checkFalcoRunsWithDrivers d (engineKindOf (Items l ! k))
             = Some ''engine.kind is not driver driven: ''"
    using assms(4) by (simp add: ek checkFalcoRunsWithDrivers_def)
  have step: "patchLoop d l pl k w = patchLoop d l pl (Suc k) (emit warning w)"
    if "k < ConfigMapList_Size d l" for pl w
    using patchLoop_step_skip [OF that assms(2) chk] by (simp add: assms(5))
  have logged: "warning \<in> set (trace (snd (replaceDriverTypeInK8SConfigMap d opts driverType w)))"
    if "clientAcquired d opts" "k < ConfigMapList_Size d l"
       "patchesOk d l (json_Marshal d (payload d driverType)) 0 k" for driverType w
  proof -
    let ?pl = "json_Marshal d (payload d driverType)"
    let ?w1 = "emit (ListCall (optNamespace opts) labelSelector) w"
    let ?w2 = "?w1\<lparr>trace := trace ?w1 @ concat (map (stepEvents d l ?pl) [0..<k])\<rparr>"
    have nz: "ConfigMapList_Size d l \<noteq> 0" using that(2) by simp
    have "replaceDriverTypeInK8SConfigMap d opts driverType w = patchLoop d l ?pl 0 ?w1"
      by (rule K8S_enters_loop [OF that(1) assms(1) nz])
    also have "\<dots> = patchLoop d l ?pl k ?w2"
      using that(2,3) assms(2) by (intro patchLoop_prefix) simp_all
    also have "\<dots> = patchLoop d l ?pl (Suc k) (emit warning ?w2)"
      by (rule step [OF that(2)])
    finally show ?thesis
      by (simp add: patchLoop_mono)
  qed
  have unpatched: "PatchCall k ns nm pt body \<in> set (trace w)"
    if "PatchCall k ns nm pt body \<in> set (trace (snd (replaceDriverTypeInK8SConfigMap d opts driverType w)))"
    for driverType w ns nm pt body
  proof (rule ccontr)
    assume "PatchCall k ns nm pt body \<notin> set (trace w)"
    from K8S_patches [OF that this] assms(1) chk show False by auto
  qed
  show ?thesis using ek step logged unpatched by blast
qed

theorem missing_key_skipped_witness:
  "engineKindOf configMapD = []
   \<and> Warn ''Avoid updating Falco configMap''
        [(''configMap'', ''falco-d''), (''reason'', ''engine.kind is not driver driven: '')]
       \<in> set (trace (snd (replaceDriverTypeInK8SConfigMap (depsK8s [configMapA, configMapD] 120)
                             optsK8s Ebpf world0)))
   \<and> (\<forall>ns nm pt body.
        PatchCall 1 ns nm pt body
          \<notin> set (trace (snd (replaceDriverTypeInK8SConfigMap (depsK8s [configMapA, configMapD] 120)
                                 optsK8s Ebpf world0))))"
proof -
  let ?d = "depsK8s [configMapA, configMapD] 120"
  let ?l = "\<lparr>Items = [configMapA, configMapD]\<rparr>"
  have h1: "ConfigMaps_List ?d (optNamespace optsK8s) labelSelector = Inr ?l"
    by (simp add: fixture_defs)
  have h2: "1 < length (Items ?l)" by simp
  have h3: "Data (Items ?l ! 1) configMapEngineKindKey = None"
    by (simp add: configMapD_def configMapEngineKindKey_def)
  have h4: "drivertype_Parse ?d [] = Inl ''wrong driver type specified: ''"
    by (simp add: fixture_defs)
  have h5: "clientAcquired ?d optsK8s"
    by (simp add: clientAcquired_def fixture_defs)
  have h6: "1 < ConfigMapList_Size ?d ?l" by (simp add: fixture_defs)
  have h7: "patchesOk ?d ?l (json_Marshal ?d (payload ?d Ebpf)) 0 1"
    by (simp add: patchesOk_def fixture_defs upt_rec)
  note T = missing_key_skipped [OF h1 h2 h3 h4 refl]
  have a: "engineKindOf configMapD = []" using T by simp
  have b: "Warn ''Avoid updating Falco configMap''
             [(''configMap'', Name (Items ?l ! 1)), (''reason'', ''engine.kind is not driver driven: '')]
           \<in> set (trace (snd (replaceDriverTypeInK8SConfigMap ?d optsK8s Ebpf world0)))"
    using T h5 h6 h7 by blast
  have c: "PatchCall 1 ns nm pt body
           \<notin> set (trace (snd (replaceDriverTypeInK8SConfigMap ?d optsK8s Ebpf world0)))"
    for ns nm pt body
  proof
    assume "PatchCall 1 ns nm pt body
           \<in> set (trace (snd (replaceDriverTypeInK8SConfigMap ?d optsK8s Ebpf world0)))"
    with T have "PatchCall 1 ns nm pt body \<in> set (trace world0)" by blast
    then show False by (simp add: world0_def)
  qed
  show ?thesis using a b c by (simp add: configMapD_def)
qed

text \<open>
  C10. With the update flag unset the command logs its line and calls \<open>StoreDriver\<close>,
  and nothing else: the trace grows by these two events only (no read or write of a
  file, no listing, no patch), the files are as they were, and the store holds the
  driver when the write succeeds.
\<close>

theorem no_update_still_stores:
  assumes "\<not> Update opts"
    and "cfg = ToDriverConfig d (Driver opts)"
    and "r = RunDriverConfig d opts w"
  shows "r = StoreDriver d cfg (ConfigFile opts) (emit (runningInfo d opts) w)
       \<and> trace (snd r) = trace w @ [runningInfo d opts, StoreCall cfg (ConfigFile opts)]
       \<and> files (snd r) = files w
       \<and> (os_WriteFile d (ConfigFile opts) = None \<longrightarrow>
            fst r = Success \<and> store (snd r) = (store w)(ConfigFile opts \<mapsto> cfg))"
  using assms
  by (simp add: RunDriverConfig_def Let_def StoreDriver_eq split: option.split)

theorem no_update_still_stores_witness:
  "fst (RunDriverConfig deps0 (opts0\<lparr>Update := False\<rparr>) (worldLocal ''kernel-module'')) = Success
   \<and> trace (snd (RunDriverConfig deps0 (opts0\<lparr>Update := False\<rparr>) (worldLocal ''kernel-module'')))
       = [runningInfo deps0 opts0, StoreCall driverCfg0 ''/etc/falcoctl/falcoctl.yaml'']
   \<and> files (snd (RunDriverConfig deps0 (opts0\<lparr>Update := False\<rparr>) (worldLocal ''kernel-module'')))
       = files (worldLocal ''kernel-module'')
   \<and> store (snd (RunDriverConfig deps0 (opts0\<lparr>Update := False\<rparr>) (worldLocal ''kernel-module'')))
       = [''/etc/falcoctl/falcoctl.yaml'' \<mapsto> driverCfg0]"
proof -
  let ?opts = "opts0\<lparr>Update := False\<rparr>" and ?w = "worldLocal ''kernel-module''"
  have u: "\<not> Update ?opts" by simp
  have cf: "ConfigFile ?opts = ''/etc/falcoctl/falcoctl.yaml''" by (simp add: opts0_def)
  have st: "store ?w = Map.empty" "trace ?w = []"
    by (simp_all add: worldLocal_def world0_def)
  have w: "os_WriteFile deps0 (ConfigFile ?opts) = None" by (simp add: deps0_def)
  have cfg: "ToDriverConfig deps0 (Driver ?opts) = driverCfg0"
    by (simp add: ToDriverConfig_def driverCfg0_def deps0_def opts0_def)
  have i: "runningInfo deps0 ?opts = runningInfo deps0 opts0" by (simp add: runningInfo_def)
  from no_update_still_stores [OF u refl refl, of deps0 ?w] w
  have "fst (RunDriverConfig deps0 ?opts ?w) = Success
      \<and> trace (snd (RunDriverConfig deps0 ?opts ?w))
          = trace ?w @ [runningInfo deps0 ?opts, StoreCall (ToDriverConfig deps0 (Driver ?opts)) (ConfigFile ?opts)]
      \<and> files (snd (RunDriverConfig deps0 ?opts ?w)) = files ?w
      \<and> store (snd (RunDriverConfig deps0 ?opts ?w))
          = (store ?w)(ConfigFile ?opts \<mapsto> ToDriverConfig deps0 (Driver ?opts))"
    by blast
  then show ?thesis unfolding cf cfg st i by simp
qed

end
